theory Spec2Isabelle
  imports Complex_Main "HOL-Library.AList" "HOL-Library.Sublist"
begin

section \<open>The gRPC client proxy of \<^verbatim>\<open>packages/grpc/src/internal/client.ts\<close>\<close>

text \<open>
  The proxy built by \<^verbatim>\<open>createGrpcClient\<close> talks to three collaborators: the gRPC
  connection (\<^verbatim>\<open>client\<close>), the tracer and the metrics sink. None of them is part of the
  file, so every call the proxy makes on one of them is recorded, in program order, in a
  trace of effects; what a collaborator answers (the readiness callback, the unary callback,
  the stream's events, the clocks) is an input of the model.

  The code is asynchronous. Each function of the model is one synchronous segment of the
  source: the code between two suspension points (an \<^verbatim>\<open>await\<close>, a callback, a stream
  event). The event loop runs one segment at a time, so any execution is a sequence of these
  segments.
\<close>

subsection \<open>Values of the collaborators\<close>

text \<open>JavaScript errors: \<^verbatim>\<open>new Error(msg)\<close>, a \<^verbatim>\<open>TypeError\<close>, and the transport's
  status error (code and details).\<close>

datatype js_error = JsError string | TypeError string | ServiceError nat string

type_synonym span = nat
type_synonym SpanContext = nat
type_synonym stream = nat
type_synonym codec = nat
type_synonym IMetrics = nat
type_synonym Metadata = "(string \<times> string) list"

text \<open>A tracer: its identity, and the header entries its \<^verbatim>\<open>inject\<close> writes into the
  carrier for a span.\<close>

record Tracer =
  tracer_id :: nat
  carrier_of :: "span \<Rightarrow> (string \<times> string) list"

record IComponentContext =
  ctx_tracer :: Tracer
  ctx_metrics :: IMetrics

datatype GrpcMetrics = RequestSent | RequestProcessed | RequestProcessingTime

datatype GrpcMetricResult = Success | Error

text \<open>The tag object of a metric: \<^verbatim>\<open>{ path, endpoint }\<close>, with \<^verbatim>\<open>result\<close> where the
  source gives one.\<close>

record tags =
  tag_path :: string
  tag_endpoint :: string
  tag_result :: "GrpcMetricResult option"

datatype tag_key = SAMPLING_PRIORITY | SPAN_KIND | COMPONENT | RpcCall | RpcHost | RpcFlavor

datatype tag_val = TagNum int | TagStr string | SPAN_KIND_RPC_CLIENT

record CallOptions =
  deadline :: "int option"
  credentials :: "unit option"
  propagate_flags :: "unit option"

record MethodDefinition =
  path :: string
  requestStream :: bool
  responseStream :: bool
  requestSerialize :: codec
  responseDeserialize :: codec

text \<open>The configuration. The source reads both timeouts with a non-null assertion
  (\<^verbatim>\<open>config.connectionTimeout!\<close>), so they are present, and they are whole milliseconds.\<close>

record config =
  endpoint :: string
  connectionTimeout :: int
  requestTimeout :: int

text \<open>The readings of \<^verbatim>\<open>Date.now()\<close> (integer milliseconds) and of
  \<^verbatim>\<open>performance.now()\<close> (fractional milliseconds) during one synchronous segment.\<close>

record clock =
  Date_now :: int
  performance_now :: rat

text \<open>Every call on a collaborator, as the trace records it.\<close>

datatype 'a effect =
    Increment IMetrics GrpcMetrics tags
  | Timing IMetrics GrpcMetrics int tags
  | StartSpan nat span string SpanContext
  | SetTag span tag_key tag_val
  | FailSpan span js_error
  | Finish span
  | Inject nat span
  | WaitForReady int
  | MakeUnaryRequest string codec codec 'a Metadata CallOptions
  | MakeServerStreamRequest string codec codec 'a Metadata CallOptions stream
  | Cancel stream
  | Close

subsection \<open>The proxy's state\<close>

text \<open>
  \<^verbatim>\<open>ClientBase\<close> holds \<^verbatim>\<open>pendingStreams\<close> (a JavaScript \<^verbatim>\<open>Set\<close>: insertion order, no
  duplicates), \<^verbatim>\<open>tracer\<close> and \<^verbatim>\<open>metrics\<close>. The variable \<^verbatim>\<open>ready\<close> is declared with
  \<^verbatim>\<open>let\<close> inside the body of the loop over the method keys (line 94), so each key has a
  binding of its own, captured by the closures of that key: \<open>ready\<close> maps a key to its flag.
  \<open>spans\<close> and \<open>streams\<close> count the handles the tracer and the connection have given out.
\<close>

record 'a state =
  pendingStreams :: "stream list"
  tracer :: Tracer
  metrics :: IMetrics
  ready :: "string \<Rightarrow> bool"
  trace :: "'a effect list"
  spans :: nat
  streams :: nat

definition emit :: "'a effect \<Rightarrow> 'a state \<Rightarrow> 'a state" where
  "emit e s = s\<lparr>trace := trace s @ [e]\<rparr>"

text \<open>The effects a segment added to the trace.\<close>

definition new_effects :: "'a state \<Rightarrow> 'a state \<Rightarrow> 'a effect list" where
  "new_effects s s' = drop (length (trace s)) (trace s')"

subsection \<open>\<^verbatim>\<open>ClientBase\<close>\<close>

definition ClientBase :: "IComponentContext \<Rightarrow> 'a state" where
  "ClientBase DefaultComponentContext =
     \<lparr>pendingStreams = [],
      tracer = ctx_tracer DefaultComponentContext,
      metrics = ctx_metrics DefaultComponentContext,
      ready = (\<lambda>key. False),
      trace = [],
      spans = 0,
      streams = 0\<rparr>"

definition initialize :: "IComponentContext \<Rightarrow> 'a state \<Rightarrow> 'a state" where
  "initialize context s = s\<lparr>tracer := ctx_tracer context, metrics := ctx_metrics context\<rparr>"

text \<open>\<^verbatim>\<open>dispose\<close>: \<^verbatim>\<open>item.cancel()\<close> for every pending stream in the set's order, then
  \<^verbatim>\<open>client.close()\<close>. The set itself is not touched.\<close>

definition dispose :: "'a state \<Rightarrow> 'a state" where
  "dispose s = emit Close (fold (\<lambda>item. emit (Cancel item)) (pendingStreams s) s)"

text \<open>\<^verbatim>\<open>addStream\<close> adds the stream to the set and registers the handler of its
  \<^verbatim>\<open>close\<close> event, which is \<open>on_close\<close>.\<close>

definition addStream :: "stream \<Rightarrow> 'a state \<Rightarrow> 'a state" where
  "addStream st s =
     s\<lparr>pendingStreams :=
         (if st \<in> set (pendingStreams s) then pendingStreams s else pendingStreams s @ [st])\<rparr>"

definition on_close :: "stream \<Rightarrow> 'a state \<Rightarrow> 'a state" where
  "on_close st s = s\<lparr>pendingStreams := removeAll st (pendingStreams s)\<rparr>"

subsection \<open>Tracing and metrics helpers\<close>

definition createCallSpan ::
  "Tracer \<Rightarrow> string \<Rightarrow> MethodDefinition \<Rightarrow> SpanContext \<Rightarrow> 'a state \<Rightarrow> span \<times> 'a state" where
  "createCallSpan tr host method spanContext s =
     (let sp = spans s;
          s1 = emit (StartSpan (tracer_id tr) sp ''Grpc Client Call'' spanContext)
                 (s\<lparr>spans := Suc (spans s)\<rparr>);
          s2 = emit (SetTag sp SAMPLING_PRIORITY (TagNum 1)) s1;
          s3 = emit (SetTag sp SPAN_KIND SPAN_KIND_RPC_CLIENT) s2;
          s4 = emit (SetTag sp COMPONENT (TagStr ''cookie-cutter-grpc'')) s3;
          s5 = emit (SetTag sp RpcCall (TagStr (path method))) s4;
          s6 = emit (SetTag sp RpcHost (TagStr host)) s5;
          s7 = emit (SetTag sp RpcFlavor (TagStr ''grpc'')) s6
      in (sp, s7))"

definition createTracingMetadata :: "Tracer \<Rightarrow> span \<Rightarrow> 'a state \<Rightarrow> Metadata \<times> 'a state" where
  "createTracingMetadata tr sp s =
     (let carrier = carrier_of tr sp;
          s1 = emit (Inject (tracer_id tr) sp) s;
          metadata = fold (\<lambda>(name, v) md. AList.update name v md) carrier []
      in (metadata, s1))"

text \<open>JavaScript's \<^verbatim>\<open>Math.round\<close>: the nearest integer, a half rounding up. The
  clock readings are exact rationals, so the difference taken before rounding is exact,
  where the source subtracts two doubles: on readings whose difference lies within a
  rounding error of a half, the sample of the source can differ by one millisecond.\<close>

definition Math_round :: "rat \<Rightarrow> int" where
  "Math_round x = \<lfloor>x + 1 / 2\<rfloor>"

definition emitTimerMetric ::
  "rat \<Rightarrow> string \<Rightarrow> string \<Rightarrow> IMetrics \<Rightarrow> clock \<Rightarrow> 'a state \<Rightarrow> 'a state" where
  "emitTimerMetric startTime p ep m clk s =
     (let currentPerformanceTime = performance_now clk;
          runTime = Math_round (currentPerformanceTime - startTime)
      in emit (Timing m RequestProcessingTime runTime
                 \<lparr>tag_path = p, tag_endpoint = ep, tag_result = None\<rparr>) s)"

subsection \<open>The closures of one method key\<close>

text \<open>\<^verbatim>\<open>whenReady\<close> issues \<^verbatim>\<open>client.waitForReady\<close> with its deadline; the callback of
  that wait is \<open>whenReady_callback\<close>, which rejects (\<open>Inl\<close>) or sets this key's
  \<^verbatim>\<open>ready\<close> and resolves.\<close>

definition whenReady :: "config \<Rightarrow> clock \<Rightarrow> 'a state \<Rightarrow> 'a state" where
  "whenReady cfg clk s = emit (WaitForReady (Date_now clk + connectionTimeout cfg)) s"

definition whenReady_callback ::
  "string \<Rightarrow> span \<Rightarrow> js_error option \<Rightarrow> 'a state \<Rightarrow> (js_error + unit) \<times> 'a state" where
  "whenReady_callback key sp err s =
     (case err of
        Some e \<Rightarrow> (Inl e, emit (Finish sp) (emit (FailSpan sp e) s))
      | None \<Rightarrow> (Inr (), s\<lparr>ready := (ready s)(key := True)\<rparr>))"

definition callOptions :: "config \<Rightarrow> MethodDefinition \<Rightarrow> clock \<Rightarrow> CallOptions" where
  "callOptions cfg method clk =
     (let dl = (if responseStream method then None
                else Some (Date_now clk + requestTimeout cfg))
      in \<lparr>deadline = dl, credentials = None, propagate_flags = None\<rparr>)"

subsection \<open>The unary executor (lines 181 to 223)\<close>

text \<open>
  An \<^verbatim>\<open>async function\<close> runs synchronously up to its first \<^verbatim>\<open>await\<close>. The unary
  callable is therefore three segments: \<open>unary_invoke\<close> (up to the readiness wait, or up
  to the request when the key is ready), \<open>unary_ready\<close> (the readiness callback and what
  follows it) and \<open>unary_callback\<close> (the callback of \<^verbatim>\<open>makeUnaryRequest\<close>).
  \<^verbatim>\<open>this\<close> is the wrapper, the callable being invoked as a method of it.
\<close>

datatype 'a pending = AwaitReady rat span 'a | AwaitResponse rat span

definition unary_request ::
  "config \<Rightarrow> MethodDefinition \<Rightarrow> span \<Rightarrow> 'a \<Rightarrow> clock \<Rightarrow> 'a state \<Rightarrow> 'a state" where
  "unary_request cfg method sp request clk s =
     (let (metadata, s1) = createTracingMetadata (tracer s) sp s
      in emit (MakeUnaryRequest (path method) (requestSerialize method)
                 (responseDeserialize method) request metadata (callOptions cfg method clk)) s1)"

definition unary_invoke ::
  "config \<Rightarrow> string \<Rightarrow> MethodDefinition \<Rightarrow> 'a \<Rightarrow> SpanContext \<Rightarrow> clock \<Rightarrow> 'a state
     \<Rightarrow> 'a pending \<times> 'a state" where
  "unary_invoke cfg key method request spanContext clk s =
     (let startTime = performance_now clk;
          s1 = emit (Increment (metrics s) RequestSent
                 \<lparr>tag_path = path method, tag_endpoint = endpoint cfg, tag_result = None\<rparr>) s;
          (sp, s2) = createCallSpan (tracer s1) (endpoint cfg) method spanContext s1
      in if \<not> ready s2 key
         then (AwaitReady startTime sp request, whenReady cfg clk s2)
         else (AwaitResponse startTime sp, unary_request cfg method sp request clk s2))"

definition unary_ready ::
  "config \<Rightarrow> string \<Rightarrow> MethodDefinition \<Rightarrow> rat \<Rightarrow> span \<Rightarrow> 'a \<Rightarrow> js_error option \<Rightarrow> clock
     \<Rightarrow> 'a state \<Rightarrow> (js_error + 'a pending) \<times> 'a state" where
  "unary_ready cfg key method startTime sp request err clk s =
     (case whenReady_callback key sp err s of
        (Inl e, s1) \<Rightarrow> (Inl e, s1)
      | (Inr _, s1) \<Rightarrow>
          (Inr (AwaitResponse startTime sp), unary_request cfg method sp request clk s1))"

definition unary_callback ::
  "config \<Rightarrow> MethodDefinition \<Rightarrow> rat \<Rightarrow> span \<Rightarrow> js_error option \<Rightarrow> 'a \<Rightarrow> clock \<Rightarrow> 'a state
     \<Rightarrow> (js_error + 'a) \<times> 'a state" where
  "unary_callback cfg method startTime sp error v clk s =
     (let s1 = emit (Increment (metrics s) RequestProcessed
                 \<lparr>tag_path = path method, tag_endpoint = endpoint cfg,
                  tag_result = Some (if error \<noteq> None then Error else Success)\<rparr>) s;
          s2 = emitTimerMetric startTime (path method) (endpoint cfg) (metrics s1) clk s1
      in case error of
           Some e \<Rightarrow> (Inl e, emit (Finish sp) (emit (FailSpan sp e) s2))
         | None \<Rightarrow> (Inr v, emit (Finish sp) s2))"

text \<open>
  One unary call run to its end, nothing else running in between. The environment gives
  the clock readings of the three segments and the answers of the connection: the error
  argument of the readiness callback (consulted only when the call waits) and the
  \<^verbatim>\<open>(error, value)\<close> arguments of the request's callback.
\<close>

record 'a unary_env =
  t_invoke :: clock
  ready_err :: "js_error option"
  t_ready :: clock
  response_error :: "js_error option"
  response_value :: 'a
  t_response :: clock

definition unary_call ::
  "config \<Rightarrow> string \<Rightarrow> MethodDefinition \<Rightarrow> 'a \<Rightarrow> SpanContext \<Rightarrow> 'a unary_env \<Rightarrow> 'a state
     \<Rightarrow> (js_error + 'a) \<times> 'a state" where
  "unary_call cfg key method request spanContext env s =
     (case unary_invoke cfg key method request spanContext (t_invoke env) s of
        (AwaitResponse startTime sp, s1) \<Rightarrow>
          unary_callback cfg method startTime sp (response_error env) (response_value env)
            (t_response env) s1
      | (AwaitReady startTime sp rq, s1) \<Rightarrow>
          (case unary_ready cfg key method startTime sp rq (ready_err env) (t_ready env) s1 of
             (Inl e, s2) \<Rightarrow> (Inl e, s2)
           | (Inr _, s2) \<Rightarrow>
               unary_callback cfg method startTime sp (response_error env) (response_value env)
                 (t_response env) s2))"

subsection \<open>The async bridge\<close>

text \<open>
  Modelled from the spec: \<^verbatim>\<open>AsyncPipe\<close>, the class of the package
  \<^verbatim>\<open>@walmartlabs/cookie-cutter-core\<close> that \<^verbatim>\<open>client.ts\<close> imports; its source lies
  outside \<^verbatim>\<open>packages/grpc\<close>. The spec gives its
  state as a pending-value queue (ordered), a terminal state (open, closed or failed with
  an error) and at most one active consumer; once terminal, no further values are
  accepted; the producer marks it terminal exactly once; consumption after termination
  replays the terminal outcome (end of sequence or the stored error) instead of blocking;
  a consumer that gives up terminates the bridge. The queue is handed out before the
  terminal outcome (the spec's ordering guarantee). An operation that releases the waiting
  consumer returns what the consumer receives.
\<close>

datatype terminal = Open | Closed | Failed js_error

datatype 'a IteratorResult = Value 'a | Done | Throw js_error

record 'a AsyncPipe =
  queue :: "'a list"
  terminal :: terminal
  waiting :: bool

text \<open>Modelled from the spec: \<^verbatim>\<open>new AsyncPipe()\<close>, an open bridge with nothing queued and no
  consumer waiting.\<close>

definition new_AsyncPipe :: "'a AsyncPipe" where
  "new_AsyncPipe = \<lparr>queue = [], terminal = Open, waiting = False\<rparr>"

text \<open>Modelled from the spec: \<^verbatim>\<open>pipe.send(value)\<close>. A terminated bridge accepts no further
  value (the send fails); an open one hands the value to the waiting consumer, or queues it.\<close>

definition pipe_send ::
  "'a \<Rightarrow> 'a AsyncPipe \<Rightarrow> js_error + ('a IteratorResult option \<times> 'a AsyncPipe)" where
  "pipe_send v p =
     (if terminal p \<noteq> Open then Inl (JsError ''pipe closed'')
      else if waiting p then Inr (Some (Value v), p\<lparr>waiting := False\<rparr>)
      else Inr (None, p\<lparr>queue := queue p @ [v]\<rparr>))"

text \<open>Modelled from the spec: \<^verbatim>\<open>pipe.close()\<close>, the clean end. The bridge is marked terminal
  once: on a terminated bridge nothing changes.\<close>

definition pipe_close :: "'a AsyncPipe \<Rightarrow> 'a IteratorResult option \<times> 'a AsyncPipe" where
  "pipe_close p =
     (if terminal p \<noteq> Open then (None, p)
      else if waiting p then (Some Done, p\<lparr>terminal := Closed, waiting := False\<rparr>)
      else (None, p\<lparr>terminal := Closed\<rparr>))"

text \<open>Modelled from the spec: \<^verbatim>\<open>pipe.throw(error)\<close>, the failure of the bridge with the
  producer's error.\<close>

definition pipe_throw ::
  "js_error \<Rightarrow> 'a AsyncPipe \<Rightarrow> 'a IteratorResult option \<times> 'a AsyncPipe" where
  "pipe_throw e p =
     (if terminal p \<noteq> Open then (None, p)
      else if waiting p then (Some (Throw e), p\<lparr>terminal := Failed e, waiting := False\<rparr>)
      else (None, p\<lparr>terminal := Failed e\<rparr>))"

text \<open>Modelled from the spec: \<^verbatim>\<open>pipe.next()\<close>, the consumer's pull. Queued values come first;
  on an empty queue the terminal outcome is replayed, and on an open bridge the consumer waits.\<close>

definition pipe_next :: "'a AsyncPipe \<Rightarrow> 'a IteratorResult option \<times> 'a AsyncPipe" where
  "pipe_next p =
     (case queue p of
        v # q \<Rightarrow> (Some (Value v), p\<lparr>queue := q\<rparr>)
      | [] \<Rightarrow>
          (case terminal p of
             Open \<Rightarrow> (None, p\<lparr>waiting := True\<rparr>)
           | Closed \<Rightarrow> (Some Done, p)
           | Failed e \<Rightarrow> (Some (Throw e), p)))"

text \<open>Modelled from the spec: \<^verbatim>\<open>pipe.return()\<close>, the consumer giving up, which terminates the
  bridge.\<close>

definition pipe_return :: "'a AsyncPipe \<Rightarrow> 'a AsyncPipe" where
  "pipe_return p = (if terminal p = Open then p\<lparr>terminal := Closed\<rparr> else p)"

subsection \<open>The server-streaming executor (lines 122 to 179)\<close>

text \<open>
  Calling an \<^verbatim>\<open>async function*\<close> runs none of its body: it returns a generator
  suspended at the start, and the body runs when the consumer asks for a value. The
  generator is then either waiting for readiness, or delegating to the pipe
  (\<^verbatim>\<open>yield* pipe\<close>), or completed. The three handlers registered on the stream close over
  the stream, \<^verbatim>\<open>startTime\<close>, \<^verbatim>\<open>span\<close> and the pipe, and outlive the generator.
  \<open>received\<close> lists what the consumer has been handed so far.
\<close>

datatype 'a generator =
    SuspendedStart 'a SpanContext
  | AwaitingReady rat span 'a
  | Delegating
  | Completed

record 'a opened =
  os_stream :: stream
  os_startTime :: rat
  os_span :: span
  os_pipe :: "'a AsyncPipe"

record 'a call =
  gen :: "'a generator"
  opened :: "'a opened option"
  received :: "'a IteratorResult list"

text \<open>Handing a result to the consumer: a value leaves the generator delegating, the end
  of the sequence or an error completes it.\<close>

definition deliver :: "'a IteratorResult option \<Rightarrow> 'a call \<Rightarrow> 'a call" where
  "deliver r c =
     (case r of
        None \<Rightarrow> c
      | Some (Value v) \<Rightarrow> c\<lparr>received := received c @ [Value v]\<rparr>
      | Some x \<Rightarrow> c\<lparr>gen := Completed, received := received c @ [x]\<rparr>)"

text \<open>Lines 136 to 178: the request, the pipe, the stream's registration, and the first
  \<^verbatim>\<open>next\<close> on the pipe that \<^verbatim>\<open>yield*\<close> makes.\<close>

definition stream_request ::
  "config \<Rightarrow> MethodDefinition \<Rightarrow> rat \<Rightarrow> span \<Rightarrow> 'a \<Rightarrow> clock \<Rightarrow> 'a call \<times> 'a state
     \<Rightarrow> 'a call \<times> 'a state" where
  "stream_request cfg method startTime sp request clk cs =
     (let (c, s) = cs;
          (metadata, s1) = createTracingMetadata (tracer s) sp s;
          st = streams s1;
          s2 = emit (MakeServerStreamRequest (path method) (requestSerialize method)
                 (responseDeserialize method) request metadata (callOptions cfg method clk) st)
                 (s1\<lparr>streams := Suc (streams s1)\<rparr>);
          s3 = addStream st s2;
          (r, pipe) = pipe_next new_AsyncPipe
      in (deliver r (c\<lparr>gen := Delegating,
                       opened := Some \<lparr>os_stream = st, os_startTime = startTime,
                                        os_span = sp, os_pipe = pipe\<rparr>\<rparr>), s3))"

text \<open>The consumer's \<^verbatim>\<open>next()\<close>. The consumer is sequential, as a \<^verbatim>\<open>for await\<close> loop
  is: while a request of its is still pending it makes no further one, and such a request
  is left out of the model.\<close>

definition gen_next ::
  "config \<Rightarrow> string \<Rightarrow> MethodDefinition \<Rightarrow> clock \<Rightarrow> 'a call \<times> 'a state \<Rightarrow> 'a call \<times> 'a state" where
  "gen_next cfg key method clk cs =
     (let (c, s) = cs in
      case gen c of
        SuspendedStart request spanContext \<Rightarrow>
          (let startTime = performance_now clk;
               s1 = emit (Increment (metrics s) RequestSent
                      \<lparr>tag_path = path method, tag_endpoint = endpoint cfg,
                       tag_result = None\<rparr>) s;
               (sp, s2) = createCallSpan (tracer s1) (endpoint cfg) method spanContext s1
           in if \<not> ready s2 key
              then (c\<lparr>gen := AwaitingReady startTime sp request\<rparr>, whenReady cfg clk s2)
              else stream_request cfg method startTime sp request clk (c, s2))
      | AwaitingReady startTime sp request \<Rightarrow> (c, s)
      | Delegating \<Rightarrow>
          (case opened c of
             None \<Rightarrow> (c, s)
           | Some h \<Rightarrow>
               (if waiting (os_pipe h) then (c, s)
                else (let (r, p) = pipe_next (os_pipe h)
                      in (deliver r (c\<lparr>opened := Some (h\<lparr>os_pipe := p\<rparr>)\<rparr>), s))))
      | Completed \<Rightarrow> (c\<lparr>received := received c @ [Done]\<rparr>, s))"

text \<open>The readiness callback of a generator that waits (lines 97 to 106, then 136).\<close>

definition gen_ready ::
  "config \<Rightarrow> string \<Rightarrow> MethodDefinition \<Rightarrow> js_error option \<Rightarrow> clock \<Rightarrow> 'a call \<times> 'a state
     \<Rightarrow> 'a call \<times> 'a state" where
  "gen_ready cfg key method err clk cs =
     (let (c, s) = cs in
      case gen c of
        AwaitingReady startTime sp request \<Rightarrow>
          (case whenReady_callback key sp err s of
             (Inl e, s1) \<Rightarrow> (c\<lparr>gen := Completed, received := received c @ [Throw e]\<rparr>, s1)
           | (Inr _, s1) \<Rightarrow> stream_request cfg method startTime sp request clk (c, s1))
      | _ \<Rightarrow> (c, s))"

text \<open>The consumer's \<^verbatim>\<open>return()\<close> (a \<^verbatim>\<open>break\<close> out of \<^verbatim>\<open>for await\<close>): the generator
  completes, and \<^verbatim>\<open>yield*\<close> passes the return on to the pipe. As for \<^verbatim>\<open>next()\<close>, the
  sequential consumer makes no such call while a request of its is pending.\<close>

definition gen_return :: "'a call \<times> 'a state \<Rightarrow> 'a call \<times> 'a state" where
  "gen_return cs =
     (let (c, s) = cs in
      case gen c of
        SuspendedStart request spanContext \<Rightarrow>
          (c\<lparr>gen := Completed, received := received c @ [Done]\<rparr>, s)
      | AwaitingReady startTime sp request \<Rightarrow> (c, s)
      | Delegating \<Rightarrow>
          (case opened c of
             None \<Rightarrow> (c, s)
           | Some h \<Rightarrow>
               (if waiting (os_pipe h) then (c, s)
                else (c\<lparr>gen := Completed,
                        opened := Some (h\<lparr>os_pipe := pipe_return (os_pipe h)\<rparr>),
                        received := received c @ [Done]\<rparr>, s)))
      | Completed \<Rightarrow> (c\<lparr>received := received c @ [Done]\<rparr>, s))"

text \<open>
  The handlers of the stream's events. Each returns, beside the new state, the error its
  promise rejects with (\<open>None\<close> when it fulfils). In the \<^verbatim>\<open>data\<close> handler the
  \<^verbatim>\<open>try\<close>/\<^verbatim>\<open>catch\<close> around \<^verbatim>\<open>pipe.send\<close> swallows the pipe's error.
\<close>

definition on_data ::
  "'a \<Rightarrow> 'a call \<times> 'a state \<Rightarrow> js_error option \<times> ('a call \<times> 'a state)" where
  "on_data chunk cs =
     (let (c, s) = cs in
      case opened c of
        None \<Rightarrow> (None, (c, s))
      | Some h \<Rightarrow>
          (case pipe_send chunk (os_pipe h) of
             Inl e \<Rightarrow> (None, (c, s))
           | Inr (r, p) \<Rightarrow> (None, (deliver r (c\<lparr>opened := Some (h\<lparr>os_pipe := p\<rparr>)\<rparr>), s))))"

definition on_end ::
  "config \<Rightarrow> MethodDefinition \<Rightarrow> clock \<Rightarrow> 'a call \<times> 'a state
     \<Rightarrow> js_error option \<times> ('a call \<times> 'a state)" where
  "on_end cfg method clk cs =
     (let (c, s) = cs in
      case opened c of
        None \<Rightarrow> (None, (c, s))
      | Some h \<Rightarrow>
          (let (r, p) = pipe_close (os_pipe h);
               c1 = deliver r (c\<lparr>opened := Some (h\<lparr>os_pipe := p\<rparr>)\<rparr>);
               s1 = emit (Increment (metrics s) RequestProcessed
                      \<lparr>tag_path = path method, tag_endpoint = endpoint cfg,
                       tag_result = Some Success\<rparr>) s;
               s2 = emitTimerMetric (os_startTime h) (path method) (endpoint cfg) (metrics s1)
                      clk s1;
               s3 = emit (Finish (os_span h)) s2
           in (None, (c1, s3))))"

definition on_error ::
  "config \<Rightarrow> MethodDefinition \<Rightarrow> js_error \<Rightarrow> clock \<Rightarrow> 'a call \<times> 'a state
     \<Rightarrow> js_error option \<times> ('a call \<times> 'a state)" where
  "on_error cfg method error clk cs =
     (let (c, s) = cs in
      case opened c of
        None \<Rightarrow> (None, (c, s))
      | Some h \<Rightarrow>
          (let s1 = emit (Increment (metrics s) RequestProcessed
                      \<lparr>tag_path = path method, tag_endpoint = endpoint cfg,
                       tag_result = Some Error\<rparr>) s;
               s2 = emitTimerMetric (os_startTime h) (path method) (endpoint cfg) (metrics s1)
                      clk s1;
               s3 = emit (FailSpan (os_span h) error) s2;
               s4 = emit (Finish (os_span h)) s3;
               (r, p) = pipe_throw error (os_pipe h);
               c1 = deliver r (c\<lparr>opened := Some (h\<lparr>os_pipe := p\<rparr>)\<rparr>)
           in (None, (c1, s4))))"

text \<open>Everything that can happen to one streaming call: the consumer's requests, the
  readiness callback, and the stream's four events.\<close>

datatype 'a event =
    Next
  | Return
  | ReadyCallback "js_error option"
  | Data 'a
  | End
  | ErrorEvent js_error
  | CloseEvent

fun step ::
  "config \<Rightarrow> string \<Rightarrow> MethodDefinition \<Rightarrow> clock \<times> 'a event \<Rightarrow> 'a call \<times> 'a state
     \<Rightarrow> 'a call \<times> 'a state" where
  "step cfg key method (clk, Next) cs = gen_next cfg key method clk cs"
| "step cfg key method (clk, Return) cs = gen_return cs"
| "step cfg key method (clk, ReadyCallback err) cs = gen_ready cfg key method err clk cs"
| "step cfg key method (clk, Data chunk) cs = snd (on_data chunk cs)"
| "step cfg key method (clk, End) cs = snd (on_end cfg method clk cs)"
| "step cfg key method (clk, ErrorEvent e) cs = snd (on_error cfg method e clk cs)"
| "step cfg key method (clk, CloseEvent) cs =
     (case opened (fst cs) of
        None \<Rightarrow> cs
      | Some h \<Rightarrow> (fst cs, on_close (os_stream h) (snd cs)))"

definition run ::
  "config \<Rightarrow> string \<Rightarrow> MethodDefinition \<Rightarrow> (clock \<times> 'a event) list \<Rightarrow> 'a call \<times> 'a state
     \<Rightarrow> 'a call \<times> 'a state" where
  "run cfg key method evs cs = foldl (\<lambda>cs ev. step cfg key method ev cs) cs evs"

subsection \<open>\<^verbatim>\<open>createGrpcClient\<close>\<close>

text \<open>
  The loop over the keys of the service definition installs one callable per key: the
  one that throws for a request-stream method, the streaming executor, or the unary one.
  The service definition is the list of its entries in key order (keys are distinct, as
  the keys of an object are). The default tracer and metrics sink come from
  \<^verbatim>\<open>DefaultComponentContext\<close>, which is taken as a parameter.
\<close>

datatype callable = Unsupported | ServerStream MethodDefinition | Unary MethodDefinition

definition install :: "MethodDefinition \<Rightarrow> callable" where
  "install method =
     (if requestStream method then Unsupported
      else if responseStream method then ServerStream method
      else Unary method)"

definition installed :: "(string \<times> MethodDefinition) list \<Rightarrow> (string \<rightharpoonup> callable)" where
  "installed serviceDef =
     fold (\<lambda>(key, method) wrapper. wrapper(key \<mapsto> install method)) serviceDef Map.empty"

definition createGrpcClient ::
  "IComponentContext \<Rightarrow> (string \<times> MethodDefinition) list
     \<Rightarrow> (string \<rightharpoonup> callable) \<times> 'a state" where
  "createGrpcClient DefaultComponentContext serviceDef =
     (installed serviceDef, ClientBase DefaultComponentContext)"

text \<open>Invoking \<^verbatim>\<open>wrapper[key](request, spanContext)\<close>: a synchronous throw, the promise
  of the unary executor (already run up to its first suspension), or a generator not yet
  started. The keys meant are those of service methods and of nothing else: the members
  that the wrapper has as a \<^verbatim>\<open>ClientBase\<close> (\<^verbatim>\<open>initialize\<close>, \<^verbatim>\<open>dispose\<close>,
  \<^verbatim>\<open>addStream\<close>) are the operations of that name above, and a service method is taken
  not to bear one of their names. For any other key the wrapper has no callable.\<close>

datatype 'a invocation = Throws js_error | Promise "'a pending" | AsyncGenerator "'a call"

definition invoke ::
  "config \<Rightarrow> (string \<rightharpoonup> callable) \<Rightarrow> string \<Rightarrow> 'a \<Rightarrow> SpanContext \<Rightarrow> clock \<Rightarrow> 'a state
     \<Rightarrow> 'a invocation \<times> 'a state" where
  "invoke cfg wrapper key request spanContext clk s =
     (case wrapper key of
        None \<Rightarrow> (Throws (TypeError ''wrapper[key] is not a function''), s)
      | Some Unsupported \<Rightarrow> (Throws (JsError ''client-side streams are not supported''), s)
      | Some (ServerStream method) \<Rightarrow>
          (AsyncGenerator \<lparr>gen = SuspendedStart request spanContext, opened = None,
                           received = []\<rparr>, s)
      | Some (Unary method) \<Rightarrow>
          (let (p, s1) = unary_invoke cfg key method request spanContext clk s
           in (Promise p, s1)))"

subsection \<open>Everything that can happen on a proxy\<close>

text \<open>
  The segments that change the proxy's state, with the values their closures hold as
  parameters: an invocation of a key, the readiness callback and the request callback of a
  unary call, an event of a streaming call, \<^verbatim>\<open>initialize\<close>, \<^verbatim>\<open>dispose\<close>. An execution
  of the proxy is a sequence of them.
\<close>

datatype 'a action =
    Invoke string 'a SpanContext
  | UnaryReady string MethodDefinition rat span 'a "js_error option"
  | UnaryCallback MethodDefinition rat span "js_error option" 'a
  | StreamEvent string MethodDefinition "'a event" "'a call"
  | Initialize IComponentContext
  | Dispose

fun perform ::
  "config \<Rightarrow> (string \<rightharpoonup> callable) \<Rightarrow> clock \<times> 'a action \<Rightarrow> 'a state \<Rightarrow> 'a state" where
  "perform cfg wrapper (clk, Invoke key request spanContext) s =
     snd (invoke cfg wrapper key request spanContext clk s)"
| "perform cfg wrapper (clk, UnaryReady key method startTime sp request err) s =
     snd (unary_ready cfg key method startTime sp request err clk s)"
| "perform cfg wrapper (clk, UnaryCallback method startTime sp error v) s =
     snd (unary_callback cfg method startTime sp error v clk s)"
| "perform cfg wrapper (clk, StreamEvent key method ev c) s =
     snd (step cfg key method (clk, ev) (c, s))"
| "perform cfg wrapper (clk, Initialize context) s = initialize context s"
| "perform cfg wrapper (clk, Dispose) s = dispose s"

definition perform_all ::
  "config \<Rightarrow> (string \<rightharpoonup> callable) \<Rightarrow> (clock \<times> 'a action) list \<Rightarrow> 'a state \<Rightarrow> 'a state" where
  "perform_all cfg wrapper acts s = foldl (\<lambda>s a. perform cfg wrapper a s) s acts"

text \<open>The actions in which a call of the key \<open>k\<close> observes the connection become ready:
  the readiness callback, without error, of a unary call of \<open>k\<close>, or of a streaming call
  of \<open>k\<close> whose generator awaits it.\<close>

fun observes_ready :: "string \<Rightarrow> 'a action \<Rightarrow> bool" where
  "observes_ready k (UnaryReady key m startTime sp request err) = (key = k \<and> err = None)"
| "observes_ready k (StreamEvent key m ev c) =
     (key = k \<and> ev = ReadyCallback None \<and>
      (case gen c of AwaitingReady startTime sp request \<Rightarrow> True | _ \<Rightarrow> False))"
| "observes_ready k a = False"

subsection \<open>Reading a trace\<close>

fun is_increment :: "GrpcMetrics \<Rightarrow> 'a effect \<Rightarrow> bool" where
  "is_increment name (Increment m name' t) = (name' = name)"
| "is_increment name e = False"

fun is_timing :: "'a effect \<Rightarrow> bool" where
  "is_timing (Timing m name v t) = True"
| "is_timing e = False"

fun is_span_start :: "'a effect \<Rightarrow> bool" where
  "is_span_start (StartSpan tr sp name parent) = True"
| "is_span_start e = False"

fun is_span_end :: "'a effect \<Rightarrow> bool" where
  "is_span_end (FailSpan sp e) = True"
| "is_span_end (Finish sp) = True"
| "is_span_end e = False"

text \<open>The calls on the connection.\<close>

fun is_transport :: "'a effect \<Rightarrow> bool" where
  "is_transport (WaitForReady d) = True"
| "is_transport (MakeUnaryRequest p ser de rq md opts) = True"
| "is_transport (MakeServerStreamRequest p ser de rq md opts st) = True"
| "is_transport (Cancel st) = True"
| "is_transport Close = True"
| "is_transport e = False"

fun is_wait :: "'a effect \<Rightarrow> bool" where
  "is_wait (WaitForReady d) = True"
| "is_wait e = False"

text \<open>The deadlines of the unary requests, and of the streaming requests, of a trace.\<close>

fun unary_deadlines :: "'a effect list \<Rightarrow> int option list" where
  "unary_deadlines [] = []"
| "unary_deadlines (MakeUnaryRequest p ser de rq md opts # es) = deadline opts # unary_deadlines es"
| "unary_deadlines (e # es) = unary_deadlines es"

fun stream_deadlines :: "'a effect list \<Rightarrow> int option list" where
  "stream_deadlines [] = []"
| "stream_deadlines (MakeServerStreamRequest p ser de rq md opts st # es) =
     deadline opts # stream_deadlines es"
| "stream_deadlines (e # es) = stream_deadlines es"



fun yields :: "'a IteratorResult list \<Rightarrow> 'a list" where
  "yields [] = []"
| "yields (Value v # rs) = v # yields rs"
| "yields (r # rs) = yields rs"


subsection \<open>An example service\<close>

definition example_tracer :: Tracer where
  "example_tracer = \<lparr>tracer_id = 0, carrier_of = (\<lambda>sp. [(''uber-trace-id'', ''1:1:0:1'')])\<rparr>"

definition example_context :: IComponentContext where
  "example_context = \<lparr>ctx_tracer = example_tracer, ctx_metrics = 0\<rparr>"

definition example_config :: config where
  "example_config =
     \<lparr>endpoint = ''localhost:5001'', connectionTimeout = 1000, requestTimeout = 5000\<rparr>"

definition Echo :: MethodDefinition where
  "Echo = \<lparr>path = ''/svc/Echo'', requestStream = False, responseStream = False,
            requestSerialize = 0, responseDeserialize = 1\<rparr>"

definition Ping :: MethodDefinition where
  "Ping = \<lparr>path = ''/svc/Ping'', requestStream = False, responseStream = False,
            requestSerialize = 0, responseDeserialize = 1\<rparr>"

definition Feed :: MethodDefinition where
  "Feed = \<lparr>path = ''/svc/Feed'', requestStream = False, responseStream = True,
            requestSerialize = 2, responseDeserialize = 3\<rparr>"

definition Upload :: MethodDefinition where
  "Upload = \<lparr>path = ''/svc/Upload'', requestStream = True, responseStream = False,
              requestSerialize = 4, responseDeserialize = 5\<rparr>"

definition example_service :: "(string \<times> MethodDefinition) list" where
  "example_service = [(''Echo'', Echo), (''Ping'', Ping), (''Feed'', Feed), (''Upload'', Upload)]"

definition example_wrapper :: "string \<rightharpoonup> callable" where
  "example_wrapper = installed example_service"

definition example_client :: "string state" where
  "example_client = snd (createGrpcClient example_context example_service)"

text \<open>The clocks \<open>t\<close> milliseconds after the example starts.\<close>

definition clock_at :: "int \<Rightarrow> clock" where
  "clock_at t = \<lparr>Date_now = 1600000000000 + t, performance_now = of_int t + 1 / 4\<rparr>"

text \<open>An answer of the connection where it becomes ready and the request succeeds, one
  where the request fails, and one where the connection does not become ready in time.\<close>

definition env_success :: "string unary_env" where
  "env_success =
     \<lparr>t_invoke = clock_at 0, ready_err = None, t_ready = clock_at 10,
      response_error = None, response_value = ''hello'', t_response = clock_at 25\<rparr>"

definition env_error :: "string unary_env" where
  "env_error =
     \<lparr>t_invoke = clock_at 0, ready_err = None, t_ready = clock_at 10,
      response_error = Some (ServiceError 14 ''unavailable''), response_value = [],
      t_response = clock_at 25\<rparr>"

definition env_not_ready :: "string unary_env" where
  "env_not_ready =
     \<lparr>t_invoke = clock_at 0,
      ready_err = Some (JsError ''Failed to connect before the deadline''),
      t_ready = clock_at 1000,
      response_error = None, response_value = [], t_response = clock_at 1000\<rparr>"

text \<open>The example client after a first call of \<open>Echo\<close> that saw the connection become
  ready, and a streaming call of \<open>Feed\<close> whose stream is open.\<close>

definition after_echo :: "string state" where
  "after_echo = snd (unary_call example_config ''Echo'' Echo ''hi'' 7 env_success example_client)"

definition feed_open :: "string call \<times> string state" where
  "feed_open =
     run example_config ''Feed'' Feed [(clock_at 0, Next), (clock_at 10, ReadyCallback None)]
       (\<lparr>gen = SuspendedStart ''sub'' 7, opened = None, received = []\<rparr>, example_client)"

text \<open>The example stream after one chunk has arrived and the consumer, having received
  it, has given up.\<close>

definition feed_abandoned :: "string call \<times> string state" where
  "feed_abandoned =
     gen_return (step example_config ''Feed'' Feed (clock_at 11, Data ''a'') feed_open)"


definition example_actions :: "(clock \<times> string action) list" where
  "example_actions =
     [(clock_at 25, UnaryCallback Echo (1 / 4) 0 None ''hello''),
      (clock_at 30, Invoke ''Ping'' ''x'' 7)]"

text \<open>The example client once \<open>Echo\<close> has been invoked and waits for readiness; the
  readiness callback of that call, without error; and the client after that callback and
  the further activity above (the answer to \<open>Echo\<close>, then an invocation of \<open>Ping\<close>).\<close>

definition echo_waiting :: "string state" where
  "echo_waiting =
     snd (invoke example_config example_wrapper ''Echo'' ''hi'' 7 (clock_at 0) example_client)"

definition echo_ready_callback :: "clock \<times> string action" where
  "echo_ready_callback = (clock_at 10, UnaryReady ''Echo'' Echo (1 / 4) 0 ''hi'' None)"

definition example_later :: "string state" where
  "example_later =
     perform_all example_config example_wrapper example_actions
       (perform example_config example_wrapper echo_ready_callback echo_waiting)"

subsection \<open>Invariants of an open streaming call\<close>



section \<open>Properties\<close>

subsection \<open>Basic facts about the trace\<close>

lemma trace_emit [simp]: "trace (emit e s) = trace s @ [e]"
  and ready_emit [simp]: "ready (emit e s) = ready s"
  and pendingStreams_emit [simp]: "pendingStreams (emit e s) = pendingStreams s"
  and metrics_emit [simp]: "metrics (emit e s) = metrics s"
  and tracer_emit [simp]: "tracer (emit e s) = tracer s"
  and spans_emit [simp]: "spans (emit e s) = spans s"
  and streams_emit [simp]: "streams (emit e s) = streams s"
  by (simp_all add: emit_def)

lemma new_effects_append: "trace s' = trace s @ es \<Longrightarrow> new_effects s s' = es"
  by (simp add: new_effects_def)

lemmas example_defs =
  example_tracer_def example_context_def example_config_def Echo_def Ping_def Feed_def
  Upload_def example_service_def example_wrapper_def example_client_def clock_at_def
  env_success_def env_error_def env_not_ready_def after_echo_def feed_open_def

lemmas segment_defs =
  createGrpcClient_def ClientBase_def installed_def install_def invoke_def
  unary_call_def unary_invoke_def unary_ready_def unary_callback_def unary_request_def
  createCallSpan_def createTracingMetadata_def emitTimerMetric_def Math_round_def
  whenReady_def whenReady_callback_def callOptions_def
  run_def gen_next_def gen_ready_def gen_return_def stream_request_def deliver_def
  on_data_def on_end_def on_error_def on_close_def addStream_def
  new_AsyncPipe_def pipe_next_def pipe_send_def pipe_close_def pipe_throw_def pipe_return_def

lemmas unary_defs =
  unary_call_def unary_invoke_def unary_ready_def unary_callback_def unary_request_def
  createCallSpan_def createTracingMetadata_def emitTimerMetric_def
  whenReady_def whenReady_callback_def

lemmas stream_defs =
  gen_next_def gen_ready_def gen_return_def stream_request_def deliver_def
  on_data_def on_end_def on_error_def on_close_def addStream_def
  createCallSpan_def createTracingMetadata_def emitTimerMetric_def
  whenReady_def whenReady_callback_def
  new_AsyncPipe_def pipe_next_def pipe_send_def pipe_close_def pipe_throw_def pipe_return_def

subsection \<open>Request-stream methods\<close>

lemma installed_lookup_aux:
  "fold (\<lambda>(key, method) wrapper. wrapper(key \<mapsto> install method)) sd w k =
     (case map_of (rev sd) k of None \<Rightarrow> w k | Some m \<Rightarrow> Some (install m))"
  by (induction sd arbitrary: w) (auto split: option.splits)

lemma installed_lookup:
  "distinct (map fst serviceDef) \<Longrightarrow> (key, method) \<in> set serviceDef \<Longrightarrow>
     installed serviceDef key = Some (install method)"
  by (simp add: installed_def installed_lookup_aux distinct_rev
      map_of_eq_Some_iff[THEN iffD2] rev_map[symmetric])

text \<open>
  C3. For a method of the service definition whose descriptor has \<^verbatim>\<open>requestStream\<close> set,
  invoking the installed callable, with any arguments and in any state of the proxy, throws
  at once the error \<^verbatim>\<open>new Error("client-side streams are not supported")\<close> (the
  unsupported-operation error of the spec) and leaves the state as it was: the trace gains
  no effect, so no call on the connection is made.
\<close>

theorem request_stream_unsupported:
  assumes "distinct (map fst serviceDef)" and "(key, method) \<in> set serviceDef"
    and "requestStream method"
  shows "invoke cfg (installed serviceDef) key request spanContext clk s =
           (Throws (JsError ''client-side streams are not supported''), s)"
  using installed_lookup[OF assms(1,2)] assms(3) by (simp add: invoke_def install_def)

theorem request_stream_unsupported_witness:
  "distinct (map fst example_service) \<and> (''Upload'', Upload) \<in> set example_service \<and>
   requestStream Upload \<and>
   invoke example_config (installed example_service) ''Upload'' ''x'' 7 (clock_at 0)
     example_client =
   (Throws (JsError ''client-side streams are not supported''), example_client)"
proof -
  have h1: "distinct (map fst example_service)" by (simp add: example_service_def)
  have h2: "(''Upload'', Upload) \<in> set example_service" by (simp add: example_service_def)
  have h3: "requestStream Upload" by (simp add: Upload_def)
  show ?thesis
    using h1 h2 h3 request_stream_unsupported[OF h1 h2 h3] by simp
qed

subsection \<open>Disposal\<close>

lemma trace_fold_cancel:
  "trace (fold (\<lambda>item. emit (Cancel item)) xs s) = trace s @ map Cancel xs"
  by (induction xs arbitrary: s) simp_all

lemma pending_fold_cancel:
  "pendingStreams (fold (\<lambda>item. emit (Cancel item)) xs s) = pendingStreams s"
  by (induction xs arbitrary: s) simp_all

lemma pending_fold_on_close:
  "pendingStreams (fold on_close xs s) = filter (\<lambda>x. x \<notin> set xs) (pendingStreams s)"
proof (induction xs arbitrary: s)
  case Nil
  show ?case by simp
next
  case (Cons x xs)
  have "pendingStreams (on_close x s) = filter (\<lambda>y. y \<noteq> x) (pendingStreams s)"
    by (simp add: on_close_def removeAll_filter_not_eq) metis
  then show ?case by (simp add: Cons.IH conj_commute)
qed

text \<open>
  C4, as amended. \<^verbatim>\<open>dispose()\<close> sends a cancellation to every stream in the
  pending-stream registry, in the registry's order, and then closes the connection;
  \<^verbatim>\<open>dispose()\<close> itself leaves the registry as it was. With no stream pending it only
  closes the connection, and the registry is empty. The registry is empty once every stream
  that was registered has signalled \<^verbatim>\<open>close\<close>.
\<close>

theorem dispose_cancels_then_closes:
  "new_effects s (dispose s) = map Cancel (pendingStreams s) @ [Close]
   \<and> pendingStreams (dispose s) = pendingStreams s
   \<and> new_effects (s\<lparr>pendingStreams := []\<rparr>) (dispose (s\<lparr>pendingStreams := []\<rparr>)) = [Close]
   \<and> pendingStreams (dispose (s\<lparr>pendingStreams := []\<rparr>)) = []
   \<and> pendingStreams (fold on_close (pendingStreams s) (dispose s)) = []"
  by (simp add: dispose_def trace_fold_cancel pending_fold_cancel pending_fold_on_close
      new_effects_def)

text \<open>The registry after \<^verbatim>\<open>dispose()\<close> on the example client with the stream of \<open>Feed\<close>
  open: the stream is still registered.\<close>

theorem dispose_registry_counterexample:
  "pendingStreams (dispose (snd feed_open)) \<noteq> []"
  by (simp add: example_defs segment_defs dispose_def)

subsection \<open>The unary executor\<close>

text \<open>
  C6. A unary call that reaches the transport (the key is ready, or the readiness wait
  succeeds) and whose callback carries no error resolves with exactly the value the
  callback carries; it emits one request-processed metric, with result success, one
  request-sent metric and one timing sample; it starts one span and finishes it, and the
  span is not marked failed.
\<close>

theorem unary_success:
  assumes "ready s key \<or> ready_err env = None" and "response_error env = None"
  shows "fst (unary_call cfg key method request spanContext env s) = Inr (response_value env)
    \<and> filter (is_increment RequestProcessed)
        (new_effects s (snd (unary_call cfg key method request spanContext env s))) =
        [Increment (metrics s) RequestProcessed
           \<lparr>tag_path = path method, tag_endpoint = endpoint cfg, tag_result = Some Success\<rparr>]
    \<and> filter is_span_start
        (new_effects s (snd (unary_call cfg key method request spanContext env s))) =
        [StartSpan (tracer_id (tracer s)) (spans s) ''Grpc Client Call'' spanContext]
    \<and> filter is_span_end
        (new_effects s (snd (unary_call cfg key method request spanContext env s))) =
        [Finish (spans s)]
    \<and> length (filter (is_increment RequestSent)
        (new_effects s (snd (unary_call cfg key method request spanContext env s)))) = 1
    \<and> length (filter is_timing
        (new_effects s (snd (unary_call cfg key method request spanContext env s)))) = 1"
proof (cases "ready s key")
  case True
  then show ?thesis using assms(2)
    by (simp add: unary_defs new_effects_def Let_def)
next
  case False
  then have "ready_err env = None" using assms(1) by simp
  then show ?thesis using False assms(2)
    by (simp add: unary_defs new_effects_def Let_def)
qed

theorem unary_success_witness:
  "(ready example_client ''Echo'' \<or> ready_err env_success = None)
   \<and> response_error env_success = None
   \<and> fst (unary_call example_config ''Echo'' Echo ''hi'' 7 env_success example_client) =
       Inr ''hello''
   \<and> filter is_span_end (new_effects example_client
        (snd (unary_call example_config ''Echo'' Echo ''hi'' 7 env_success example_client))) =
       [Finish 0]"
proof -
  have h1: "ready example_client ''Echo'' \<or> ready_err env_success = None"
    by (simp add: env_success_def)
  have h2: "response_error env_success = None"
    by (simp add: env_success_def)
  have v: "response_value env_success = ''hello''"
    by (simp add: env_success_def)
  have sp: "spans example_client = 0"
    by (simp add: example_client_def createGrpcClient_def ClientBase_def)
  show ?thesis
    using h1 h2 v sp unary_success[OF h1 h2, of example_config Echo "''hi''" 7]
    by simp
qed

text \<open>
  C7. A unary call that reaches the transport and whose callback carries the error \<open>E\<close>
  rejects with \<open>E\<close> itself; it emits one request-processed metric, with result error
  (and one request-sent metric and one timing sample); and when the rejection reaches the
  caller the span has been marked failed with \<open>E\<close> and then finished.
\<close>

theorem unary_failure:
  assumes "ready s key \<or> ready_err env = None" and "response_error env = Some E"
  shows "fst (unary_call cfg key method request spanContext env s) = Inl E
    \<and> filter (is_increment RequestProcessed)
        (new_effects s (snd (unary_call cfg key method request spanContext env s))) =
        [Increment (metrics s) RequestProcessed
           \<lparr>tag_path = path method, tag_endpoint = endpoint cfg, tag_result = Some Error\<rparr>]
    \<and> filter is_span_end
        (new_effects s (snd (unary_call cfg key method request spanContext env s))) =
        [FailSpan (spans s) E, Finish (spans s)]
    \<and> length (filter (is_increment RequestSent)
        (new_effects s (snd (unary_call cfg key method request spanContext env s)))) = 1
    \<and> length (filter is_timing
        (new_effects s (snd (unary_call cfg key method request spanContext env s)))) = 1"
proof (cases "ready s key")
  case True
  then show ?thesis using assms(2)
    by (simp add: unary_defs new_effects_def Let_def)
next
  case False
  then have "ready_err env = None" using assms(1) by simp
  then show ?thesis using False assms(2)
    by (simp add: unary_defs new_effects_def Let_def)
qed

theorem unary_failure_witness:
  "(ready example_client ''Echo'' \<or> ready_err env_error = None)
   \<and> response_error env_error = Some (ServiceError 14 ''unavailable'')
   \<and> fst (unary_call example_config ''Echo'' Echo ''hi'' 7 env_error example_client) =
       Inl (ServiceError 14 ''unavailable'')
   \<and> filter is_span_end (new_effects example_client
        (snd (unary_call example_config ''Echo'' Echo ''hi'' 7 env_error example_client))) =
       [FailSpan 0 (ServiceError 14 ''unavailable''), Finish 0]"
proof -
  have h1: "ready example_client ''Echo'' \<or> ready_err env_error = None"
    by (simp add: env_error_def)
  have h2: "response_error env_error = Some (ServiceError 14 ''unavailable'')"
    by (simp add: env_error_def)
  have sp: "spans example_client = 0"
    by (simp add: example_client_def createGrpcClient_def ClientBase_def)
  show ?thesis
    using h1 h2 sp unary_failure[OF h1 h2, of example_config Echo "''hi''" 7]
    by simp
qed

text \<open>
  C2, at the input where it fails. On the example client, a unary call of \<open>Echo\<close> whose
  readiness wait fails rejects with the error of the wait; it has emitted the request-sent
  metric and has failed and finished its span, but it emits no request-processed metric
  and no timing sample.
\<close>

theorem readiness_failure_skips_metrics:
  "fst (unary_call example_config ''Echo'' Echo ''hi'' 7 env_not_ready example_client) =
     Inl (JsError ''Failed to connect before the deadline'')
   \<and> length (filter (is_increment RequestSent) (new_effects example_client
        (snd (unary_call example_config ''Echo'' Echo ''hi'' 7 env_not_ready example_client)))) = 1
   \<and> filter is_span_end (new_effects example_client
        (snd (unary_call example_config ''Echo'' Echo ''hi'' 7 env_not_ready example_client))) =
        [FailSpan 0 (JsError ''Failed to connect before the deadline''), Finish 0]
   \<and> filter (is_increment RequestProcessed) (new_effects example_client
        (snd (unary_call example_config ''Echo'' Echo ''hi'' 7 env_not_ready example_client))) = []
   \<and> filter is_timing (new_effects example_client
        (snd (unary_call example_config ''Echo'' Echo ''hi'' 7 env_not_ready example_client))) = []"
  by (simp add: example_defs segment_defs new_effects_def)

subsection \<open>Deadlines\<close>

lemma install_Unary:
  "install method = Unary method \<longleftrightarrow> \<not> requestStream method \<and> \<not> responseStream method"
  by (simp add: install_def)

lemma install_ServerStream:
  "install method = ServerStream method \<longleftrightarrow> \<not> requestStream method \<and> responseStream method"
  by (simp add: install_def)

text \<open>
  C8. A call of a method installed as unary issues its request with the deadline
  \<^verbatim>\<open>Date.now()\<close> plus the configured request timeout, the clock being read in the segment
  that issues the request (the invocation when the key is ready, otherwise the segment of
  the readiness callback); it issues no request when the readiness wait fails. A call of a
  method installed as server-streaming issues its request with no deadline.
\<close>

theorem call_deadlines:
  "(install method = Unary method \<longrightarrow>
      unary_deadlines (new_effects s (snd (unary_call cfg key method request spanContext env s))) =
        (if ready s key then [Some (Date_now (t_invoke env) + requestTimeout cfg)]
         else if ready_err env = None then [Some (Date_now (t_ready env) + requestTimeout cfg)]
         else []))
   \<and> (install method = ServerStream method \<longrightarrow>
      stream_deadlines (new_effects s (snd (run cfg key method
          [(clk, Next), (clk', ReadyCallback err)]
          (\<lparr>gen = SuspendedStart request spanContext, opened = None, received = []\<rparr>, s)))) =
        (if ready s key \<or> err = None then [None] else []))"
  by (auto simp add: install_Unary install_ServerStream unary_defs stream_defs run_def
      callOptions_def new_effects_def Let_def split: option.splits)

theorem call_deadlines_witness:
  "install Echo = Unary Echo
   \<and> unary_deadlines (new_effects example_client
        (snd (unary_call example_config ''Echo'' Echo ''hi'' 7 env_success example_client))) =
       [Some 1600000005010]
   \<and> install Feed = ServerStream Feed
   \<and> stream_deadlines (new_effects example_client (snd (run example_config ''Feed'' Feed
        [(clock_at 0, Next), (clock_at 10, ReadyCallback None)]
        (\<lparr>gen = SuspendedStart ''sub'' 7, opened = None, received = []\<rparr>, example_client)))) =
       [None]"
proof -
  have h1: "install Echo = Unary Echo" by (simp add: install_def Echo_def)
  have h2: "install Feed = ServerStream Feed" by (simp add: install_def Feed_def)
  have r: "\<not> ready example_client ''Echo''" "\<not> ready example_client ''Feed''"
    by (simp_all add: example_client_def createGrpcClient_def ClientBase_def)
  have e: "ready_err env_success = None" "Date_now (t_ready env_success) = 1600000000010"
    by (simp_all add: env_success_def clock_at_def)
  have t: "requestTimeout example_config = 5000" by (simp add: example_config_def)
  show ?thesis
    using h1 h2 r e t
      call_deadlines[of Echo example_client example_config "''Echo''" "''hi''" 7 env_success]
      call_deadlines[where s = example_client and cfg = example_config
        and key = "''Feed''" and clk = "clock_at 0" and clk' = "clock_at 10" and err = None
        and request = "''sub''" and spanContext = 7, of Feed]
    by simp
qed

subsection \<open>The streaming executor\<close>

text \<open>
  C10. Invoking a method of the service definition that is server-streaming (and not
  request-streaming) returns a generator suspended at its start and leaves the proxy's
  state as it was: no metric, no span, no readiness wait, no request, no registry entry.
  The consumer's first request for a value is what emits the request-sent metric and
  starts the span, and then either issues the readiness wait or opens the stream and
  registers it.
\<close>

theorem streaming_invocation_is_lazy:
  assumes "distinct (map fst serviceDef)" and "(key, method) \<in> set serviceDef"
    and "\<not> requestStream method" and "responseStream method"
  shows "invoke cfg (installed serviceDef) key request spanContext clk s =
           (AsyncGenerator \<lparr>gen = SuspendedStart request spanContext, opened = None,
                             received = []\<rparr>, s)
    \<and> take 2 (new_effects s (snd (gen_next cfg key method clk'
          (\<lparr>gen = SuspendedStart request spanContext, opened = None, received = []\<rparr>, s)))) =
        [Increment (metrics s) RequestSent
           \<lparr>tag_path = path method, tag_endpoint = endpoint cfg, tag_result = None\<rparr>,
         StartSpan (tracer_id (tracer s)) (spans s) ''Grpc Client Call'' spanContext]
    \<and> filter is_transport (new_effects s (snd (gen_next cfg key method clk'
          (\<lparr>gen = SuspendedStart request spanContext, opened = None, received = []\<rparr>, s)))) =
        (if ready s key
         then [MakeServerStreamRequest (path method) (requestSerialize method)
                 (responseDeserialize method) request
                 (fst (createTracingMetadata (tracer s) (spans s) s))
                 \<lparr>deadline = None, credentials = None, propagate_flags = None\<rparr> (streams s)]
         else [WaitForReady (Date_now clk' + connectionTimeout cfg)])
    \<and> pendingStreams (snd (gen_next cfg key method clk'
          (\<lparr>gen = SuspendedStart request spanContext, opened = None, received = []\<rparr>, s))) =
        (if ready s key then pendingStreams (addStream (streams s) s) else pendingStreams s)"
  using installed_lookup[OF assms(1,2)] assms(3,4)
  by (simp add: invoke_def install_def stream_defs callOptions_def new_effects_def Let_def)

theorem streaming_invocation_is_lazy_witness:
  "distinct (map fst example_service) \<and> (''Feed'', Feed) \<in> set example_service
   \<and> \<not> requestStream Feed \<and> responseStream Feed
   \<and> invoke example_config (installed example_service) ''Feed'' ''sub'' 7 (clock_at 0)
        example_client =
      (AsyncGenerator \<lparr>gen = SuspendedStart ''sub'' 7, opened = None, received = []\<rparr>,
       example_client)
   \<and> filter is_transport (new_effects example_client (snd (gen_next example_config ''Feed''
        Feed (clock_at 5)
        (\<lparr>gen = SuspendedStart ''sub'' 7, opened = None, received = []\<rparr>, example_client)))) =
      [WaitForReady 1600000001005]"
proof -
  have h1: "distinct (map fst example_service)" by (simp add: example_service_def)
  have h2: "(''Feed'', Feed) \<in> set example_service" by (simp add: example_service_def)
  have h3: "\<not> requestStream Feed" by (simp add: Feed_def)
  have h4: "responseStream Feed" by (simp add: Feed_def)
  have r: "\<not> ready example_client ''Feed''"
    by (simp add: example_client_def createGrpcClient_def ClientBase_def)
  have t: "Date_now (clock_at 5) + connectionTimeout example_config = 1600000001005"
    by (simp add: clock_at_def example_config_def)
  show ?thesis
    using h1 h2 h3 h4 r t
      streaming_invocation_is_lazy[OF h1 h2 h3 h4, of example_config "''sub''" 7 "clock_at 0"
        example_client "clock_at 5"]
    by simp
qed

text \<open>
  C9. The handler of the stream's \<^verbatim>\<open>data\<close> event never fails, whatever the state of
  the call. When the bridge has already reached a terminal state (closed or failed), the
  chunk is dropped: the call, what its consumer has received, and the proxy's state with
  its trace are all unchanged.
\<close>

theorem late_data_discarded:
  "fst (on_data chunk (c, s)) = None
   \<and> (opened c = Some h \<and> terminal (os_pipe h) \<noteq> Open \<longrightarrow>
        snd (on_data chunk (c, s)) = (c, s))"
  by (auto simp add: on_data_def pipe_send_def split: option.splits sum.splits)

text \<open>On the example stream after the consumer has given up, a late chunk changes
  nothing.\<close>

theorem late_data_discarded_witness:
  "opened (fst feed_abandoned) =
     Some \<lparr>os_stream = 0, os_startTime = 1 / 4, os_span = 0,
           os_pipe = \<lparr>queue = [], terminal = Closed, waiting = False\<rparr>\<rparr>
   \<and> terminal \<lparr>queue = ([] :: string list), terminal = Closed, waiting = False\<rparr> \<noteq> Open
   \<and> fst (on_data ''b'' (fst feed_abandoned, snd feed_abandoned)) = None
   \<and> snd (on_data ''b'' (fst feed_abandoned, snd feed_abandoned)) =
       (fst feed_abandoned, snd feed_abandoned)"
proof -
  have o: "opened (fst feed_abandoned) =
     Some \<lparr>os_stream = 0, os_startTime = 1 / 4, os_span = 0,
           os_pipe = \<lparr>queue = [], terminal = Closed, waiting = False\<rparr>\<rparr>"
    by (simp add: feed_abandoned_def example_defs segment_defs)
  show ?thesis
    using o
      late_data_discarded[of "''b''" "fst feed_abandoned" "snd feed_abandoned"
        "\<lparr>os_stream = 0, os_startTime = 1 / 4, os_span = 0,
          os_pipe = \<lparr>queue = [], terminal = Closed, waiting = False\<rparr>\<rparr>"]
    by simp
qed

subsection \<open>Order of the streamed values\<close>



lemma yields_append [simp]: "yields (rs @ rs') = yields rs @ yields rs'"
  by (induction rs rule: yields.induct) simp_all

lemma yields_map_Value [simp]: "yields (map Value vs) = vs"
  by (induction vs) simp_all

lemma yields_replicate_Done [simp]: "yields (replicate n Done) = []"
  by (induction n) simp_all










subsection \<open>The readiness flag\<close>

lemma ready_fold_cancel: "ready (fold (\<lambda>item. emit (Cancel item)) xs s) = ready s"
  by (induction xs arbitrary: s) simp_all

lemma ready_step: "ready s k \<Longrightarrow> ready (snd (step cfg key method ev (c, s))) k"
proof -
  assume r: "ready s k"
  obtain clk e where ev: "ev = (clk, e)" by (cases ev)
  show ?thesis
  proof (cases e)
    case Next
    then show ?thesis using r ev
      by (auto simp: stream_defs Let_def split: generator.splits option.splits prod.splits)
  next
    case Return
    then show ?thesis using r ev
      by (auto simp: stream_defs Let_def split: generator.splits option.splits prod.splits)
  next
    case (ReadyCallback x)
    then show ?thesis using r ev
      by (auto simp: stream_defs Let_def
          split: generator.splits option.splits prod.splits sum.splits)
  next
    case (Data v)
    then show ?thesis using r ev
      by (auto simp: stream_defs Let_def
          split: generator.splits option.splits prod.splits sum.splits)
  next
    case End
    then show ?thesis using r ev
      by (auto simp: stream_defs Let_def
          split: generator.splits option.splits prod.splits sum.splits)
  next
    case (ErrorEvent x)
    then show ?thesis using r ev
      by (auto simp: stream_defs Let_def
          split: generator.splits option.splits prod.splits sum.splits)
  next
    case CloseEvent
    then show ?thesis using r ev
      by (auto simp: stream_defs Let_def
          split: generator.splits option.splits prod.splits sum.splits)
  qed
qed

lemma ready_perform: "ready s k \<Longrightarrow> ready (perform cfg wrapper a s) k"
proof -
  assume r: "ready s k"
  obtain clk act where a: "a = (clk, act)" by (cases a)
  show ?thesis
  proof (cases act)
    case (Invoke k' rq cx)
    then show ?thesis using r a
      by (auto simp: invoke_def unary_defs Let_def split: option.splits callable.splits)
  next
    case (UnaryReady k' m t0 sp rq err)
    then show ?thesis using r a
      by (auto simp: unary_defs Let_def split: option.splits)
  next
    case (UnaryCallback m t0 sp err v)
    then show ?thesis using r a
      by (auto simp: unary_defs Let_def split: option.splits)
  next
    case (StreamEvent k' m ev c)
    then show ?thesis using r a by (simp add: ready_step)
  next
    case (Initialize cx)
    then show ?thesis using r a by (simp add: initialize_def)
  next
    case Dispose
    then show ?thesis using r a by (simp add: dispose_def ready_fold_cancel)
  qed
qed

lemma ready_perform_all: "ready s k \<Longrightarrow> ready (perform_all cfg wrapper acts s) k"
  unfolding perform_all_def
  by (induction acts arbitrary: s) (simp_all add: ready_perform)

lemma observes_ready_key:
  "observes_ready k a \<Longrightarrow> k' \<noteq> k \<Longrightarrow> \<not> observes_ready k' a"
  by (cases a) auto

lemma unready_step:
  assumes "\<not> ready s k"
    and "\<not> (key = k \<and> ev = ReadyCallback None \<and>
            (case gen c of AwaitingReady startTime sp request \<Rightarrow> True | _ \<Rightarrow> False))"
  shows "\<not> ready (snd (step cfg key m (clk, ev) (c, s))) k"
proof (cases ev)
  case Next
  then show ?thesis using assms
    by (auto simp: stream_defs Let_def split: generator.splits option.splits prod.splits)
next
  case Return
  then show ?thesis using assms
    by (auto simp: stream_defs Let_def split: generator.splits option.splits prod.splits)
next
  case (ReadyCallback x)
  then show ?thesis using assms
    by (auto simp: stream_defs Let_def
        split: generator.splits option.splits prod.splits sum.splits if_splits)
next
  case (Data v)
  then show ?thesis using assms
    by (auto simp: stream_defs Let_def
        split: generator.splits option.splits prod.splits sum.splits)
next
  case End
  then show ?thesis using assms
    by (auto simp: stream_defs Let_def
        split: generator.splits option.splits prod.splits sum.splits)
next
  case (ErrorEvent x)
  then show ?thesis using assms
    by (auto simp: stream_defs Let_def
        split: generator.splits option.splits prod.splits sum.splits)
next
  case CloseEvent
  then show ?thesis using assms
    by (auto simp: stream_defs Let_def
        split: generator.splits option.splits prod.splits sum.splits)
qed

lemma unready_perform:
  assumes "\<not> ready s k" and "\<not> observes_ready k (snd a)"
  shows "\<not> ready (perform cfg wrapper a s) k"
proof -
  obtain clk act where a: "a = (clk, act)" by (cases a)
  show ?thesis
  proof (cases act)
    case (Invoke k' rq cx)
    then show ?thesis using assms a
      by (auto simp: invoke_def unary_defs Let_def split: option.splits callable.splits)
  next
    case (UnaryReady k' m t0 sp rq err)
    then show ?thesis using assms a
      by (auto simp: unary_defs Let_def split: option.splits)
  next
    case (UnaryCallback m t0 sp err v)
    then show ?thesis using assms a
      by (auto simp: unary_defs Let_def split: option.splits)
  next
    case (StreamEvent k' m ev c)
    then show ?thesis using assms a unready_step[of s k k' ev c cfg m clk] by simp
  next
    case (Initialize cx)
    then show ?thesis using assms a by (simp add: initialize_def)
  next
    case Dispose
    then show ?thesis using assms a by (simp add: dispose_def ready_fold_cancel)
  qed
qed

lemma unready_perform_all:
  "\<not> ready s k \<Longrightarrow> \<forall>a\<in>set acts. \<not> observes_ready k (snd a) \<Longrightarrow>
     \<not> ready (perform_all cfg wrapper acts s) k"
  unfolding perform_all_def
  by (induction acts arbitrary: s) (simp_all add: unready_perform)

lemma observes_ready_perform:
  assumes "observes_ready k (snd a)"
  shows "ready (perform cfg wrapper a s) k"
proof -
  obtain clk act where a: "a = (clk, act)" by (cases a)
  show ?thesis
  proof (cases act)
    case (UnaryReady k' m t0 sp rq err)
    then show ?thesis using assms a
      by (auto simp: unary_defs Let_def split: option.splits)
  next
    case (StreamEvent k' m ev c)
    then show ?thesis using assms a
      by (auto simp: stream_defs Let_def
          split: generator.splits option.splits prod.splits sum.splits)
  qed (use assms a in auto)
qed

text \<open>
  C1, as amended. The readiness flag belongs to one method key of a client proxy. Once
  the readiness callback of a call of a key has reported the connection ready, then after
  anything else that happens on the proxy (invocations of any key, callbacks, stream
  events, \<^verbatim>\<open>initialize\<close>, \<^verbatim>\<open>dispose\<close>) the flag of that key is still set, and a call
  of that same key, unary or streaming, skips the readiness wait: it issues its request in
  its first segment and makes no \<^verbatim>\<open>waitForReady\<close> call. That callback leaves the flag
  of every other key as it was. A call of another key, whose flag was not set and for which
  no call has observed readiness since, still performs its own readiness wait: it issues
  \<^verbatim>\<open>waitForReady\<close> with the connection deadline and suspends before any request.
\<close>

theorem ready_flag_per_method:
  assumes "observes_ready key (snd a0)"
    and "s1 = perform cfg wrapper a0 s0"
    and "s2 = perform_all cfg wrapper acts s1"
  shows "ready s2 key
    \<and> fst (unary_invoke cfg key m request spanContext clk s2) =
        AwaitResponse (performance_now clk) (spans s2)
    \<and> filter is_wait (new_effects s2
        (snd (unary_invoke cfg key m request spanContext clk s2))) = []
    \<and> gen (fst (gen_next cfg key m clk
        (\<lparr>gen = SuspendedStart request spanContext, opened = None, received = []\<rparr>, s2))) =
        Delegating
    \<and> filter is_wait (new_effects s2 (snd (gen_next cfg key m clk
        (\<lparr>gen = SuspendedStart request spanContext, opened = None, received = []\<rparr>, s2)))) = []
    \<and> (key' \<noteq> key \<longrightarrow> ready s1 key' = ready s0 key')
    \<and> (key' \<noteq> key \<and> \<not> ready s0 key' \<and> (\<forall>a\<in>set acts. \<not> observes_ready key' (snd a)) \<longrightarrow>
         \<not> ready s2 key'
         \<and> fst (unary_invoke cfg key' m request spanContext clk s2) =
             AwaitReady (performance_now clk) (spans s2) request
         \<and> filter is_wait (new_effects s2
             (snd (unary_invoke cfg key' m request spanContext clk s2))) =
             [WaitForReady (Date_now clk + connectionTimeout cfg)]
         \<and> gen (fst (gen_next cfg key' m clk
             (\<lparr>gen = SuspendedStart request spanContext, opened = None, received = []\<rparr>, s2))) =
             AwaitingReady (performance_now clk) (spans s2) request
         \<and> filter is_wait (new_effects s2 (snd (gen_next cfg key' m clk
             (\<lparr>gen = SuspendedStart request spanContext, opened = None, received = []\<rparr>, s2)))) =
             [WaitForReady (Date_now clk + connectionTimeout cfg)])"
proof -
  have "ready s1 key" using assms(1,2) by (simp add: observes_ready_perform)
  then have r: "ready s2 key" using assms(3) by (simp add: ready_perform_all)
  have same: "fst (unary_invoke cfg key m request spanContext clk s2) =
        AwaitResponse (performance_now clk) (spans s2)
    \<and> filter is_wait (new_effects s2
        (snd (unary_invoke cfg key m request spanContext clk s2))) = []
    \<and> gen (fst (gen_next cfg key m clk
        (\<lparr>gen = SuspendedStart request spanContext, opened = None, received = []\<rparr>, s2))) =
        Delegating
    \<and> filter is_wait (new_effects s2 (snd (gen_next cfg key m clk
        (\<lparr>gen = SuspendedStart request spanContext, opened = None, received = []\<rparr>, s2)))) = []"
    using r by (simp add: unary_defs stream_defs new_effects_def Let_def)
  have frame: "key' \<noteq> key \<longrightarrow> ready s1 key' = ready s0 key'"
  proof
    assume ne: "key' \<noteq> key"
    then have no: "\<not> observes_ready key' (snd a0)"
      using assms(1) observes_ready_key by blast
    show "ready s1 key' = ready s0 key'"
      using assms(2) no unready_perform[of s0 key' a0 cfg wrapper]
        ready_perform[of s0 key' cfg wrapper a0] by blast
  qed
  have other: "key' \<noteq> key \<and> \<not> ready s0 key' \<and> (\<forall>a\<in>set acts. \<not> observes_ready key' (snd a)) \<longrightarrow>
         \<not> ready s2 key'
         \<and> fst (unary_invoke cfg key' m request spanContext clk s2) =
             AwaitReady (performance_now clk) (spans s2) request
         \<and> filter is_wait (new_effects s2
             (snd (unary_invoke cfg key' m request spanContext clk s2))) =
             [WaitForReady (Date_now clk + connectionTimeout cfg)]
         \<and> gen (fst (gen_next cfg key' m clk
             (\<lparr>gen = SuspendedStart request spanContext, opened = None, received = []\<rparr>, s2))) =
             AwaitingReady (performance_now clk) (spans s2) request
         \<and> filter is_wait (new_effects s2 (snd (gen_next cfg key' m clk
             (\<lparr>gen = SuspendedStart request spanContext, opened = None, received = []\<rparr>, s2)))) =
             [WaitForReady (Date_now clk + connectionTimeout cfg)]"
  proof
    assume a: "key' \<noteq> key \<and> \<not> ready s0 key' \<and> (\<forall>a\<in>set acts. \<not> observes_ready key' (snd a))"
    then have "\<not> ready s1 key'" using frame by simp
    then have u: "\<not> ready s2 key'"
      using a assms(3) by (simp add: unready_perform_all)
    then show "\<not> ready s2 key'
         \<and> fst (unary_invoke cfg key' m request spanContext clk s2) =
             AwaitReady (performance_now clk) (spans s2) request
         \<and> filter is_wait (new_effects s2
             (snd (unary_invoke cfg key' m request spanContext clk s2))) =
             [WaitForReady (Date_now clk + connectionTimeout cfg)]
         \<and> gen (fst (gen_next cfg key' m clk
             (\<lparr>gen = SuspendedStart request spanContext, opened = None, received = []\<rparr>, s2))) =
             AwaitingReady (performance_now clk) (spans s2) request
         \<and> filter is_wait (new_effects s2 (snd (gen_next cfg key' m clk
             (\<lparr>gen = SuspendedStart request spanContext, opened = None, received = []\<rparr>, s2)))) =
             [WaitForReady (Date_now clk + connectionTimeout cfg)]"
      by (simp add: unary_defs stream_defs new_effects_def Let_def)
  qed
  show ?thesis using r same frame other by blast
qed

text \<open>On the example client: \<open>Echo\<close> is invoked and waits, its readiness callback
  reports the connection ready, the answer arrives and \<open>Ping\<close> is invoked. A second call
  of \<open>Echo\<close> then skips the wait, and a second call of \<open>Ping\<close> waits.\<close>

theorem ready_flag_per_method_witness:
  "observes_ready ''Echo'' (snd echo_ready_callback)
   \<and> ready example_later ''Echo''
   \<and> filter is_wait (new_effects example_later
        (snd (unary_invoke example_config ''Echo'' Echo ''again'' 7 (clock_at 40)
           example_later))) = []
   \<and> ''Ping'' \<noteq> ''Echo''
   \<and> \<not> ready echo_waiting ''Ping''
   \<and> map (\<lambda>a. observes_ready ''Ping'' (snd a)) example_actions = [False, False]
   \<and> \<not> ready example_later ''Ping''
   \<and> filter is_wait (new_effects example_later
        (snd (unary_invoke example_config ''Ping'' Ping ''again'' 7 (clock_at 40)
           example_later))) = [WaitForReady 1600000001040]"
proof -
  have h1: "observes_ready ''Echo'' (snd echo_ready_callback)"
    by (simp add: echo_ready_callback_def)
  have h3: "example_later =
     perform_all example_config example_wrapper example_actions
       (perform example_config example_wrapper echo_ready_callback echo_waiting)"
    by (rule example_later_def)
  have ne: "''Ping'' \<noteq> ''Echo''" by simp
  have u: "\<not> ready echo_waiting ''Ping''"
    by (simp add: echo_waiting_def example_defs segment_defs)
  have q: "\<forall>a\<in>set example_actions. \<not> observes_ready ''Ping'' (snd a)"
    by (simp add: example_actions_def)
  have t: "Date_now (clock_at 40) + connectionTimeout example_config = 1600000001040"
    by (simp add: clock_at_def example_config_def)
  have q': "map (\<lambda>a. observes_ready ''Ping'' (snd a)) example_actions = [False, False]"
    by (simp add: example_actions_def)
  show ?thesis
    using h1 ne u q q' t
      ready_flag_per_method[OF h1 refl h3, where m = Echo and request = "''again''"
        and spanContext = 7 and clk = "clock_at 40" and key' = "''Ping''"]
      ready_flag_per_method[OF h1 refl h3, where m = Ping and request = "''again''"
        and spanContext = 7 and clk = "clock_at 40" and key' = "''Ping''"]
    by simp
qed

text \<open>On the example client, after a call of \<open>Echo\<close> has seen the connection become
  ready, a call of \<open>Ping\<close> on the same proxy still issues the readiness wait.\<close>

theorem readiness_not_shared_counterexample:
  "ready after_echo ''Echo''
   \<and> filter is_wait (new_effects after_echo
        (snd (invoke example_config example_wrapper ''Ping'' ''x'' 7 (clock_at 30) after_echo))) =
      [WaitForReady 1600000001030]"
  by (simp add: example_defs segment_defs new_effects_def)

end
